theory Spec2Isabelle
  imports Main "HOL-Library.Char_ord" "HOL-Library.List_Lexorder"
begin

section \<open>Role registry (roles.py)\<close>

text \<open>
  A \<open>Permission\<close> row and a \<open>Role\<close> row with its many-to-many relationship list.
  Python compares model objects by identity; within one database session there is one
  object per row, so two objects are the same exactly when their columns agree, which is
  equality of records here. The column \<open>code\<close> is declared \<open>unique=True\<close> and the association
  table \<open>role_permissions\<close> has the composite primary key (role_id, permission_id).
\<close>

record Permission =
  permission_id :: int
  code :: string

record Role =
  role_id :: int
  role_name :: string
  permissions :: "Permission list"

text \<open>\<open>Role.add_permission\<close>: append unless already in the list.\<close>

definition add_permission :: "Role \<Rightarrow> Permission \<Rightarrow> Role" where
  "add_permission r p =
     (if p \<notin> set (permissions r) then r\<lparr>permissions := permissions r @ [p]\<rparr> else r)"

text \<open>\<open>Role.remove_permission\<close>: \<open>list.remove\<close> deletes the first occurrence.\<close>

definition remove_permission :: "Role \<Rightarrow> Permission \<Rightarrow> Role" where
  "remove_permission r p =
     (if p \<in> set (permissions r) then r\<lparr>permissions := remove1 p (permissions r)\<rparr> else r)"

text \<open>\<open>Role.has_permission\<close>: \<open>any(p.code == permission_code for p in self.permissions)\<close>.\<close>

definition Role_has_permission :: "Role \<Rightarrow> string \<Rightarrow> bool" where
  "Role_has_permission r permission_code =
     list_ex (\<lambda>p. code p = permission_code) (permissions r)"

section \<open>Actors (staff.py) and the authorization guard (security.py)\<close>

record Staff =
  staff_id :: int
  active :: bool
  role :: "Role option"

text \<open>\<open>str.endswith\<close>.\<close>

definition endswith :: "string \<Rightarrow> string \<Rightarrow> bool" where
  "endswith s suffix =
     (length suffix \<le> length s \<and> drop (length s - length suffix) s = suffix)"

text \<open>
  \<open>has_role(user, role_name)\<close>. A missing user is \<open>None\<close>. The Python returns
  \<open>user.role and user.role.name == role_name\<close>, used only for its truth value.
\<close>

definition has_role :: "Staff option \<Rightarrow> string \<Rightarrow> bool" where
  "has_role user rn =
     (case user of
        None \<Rightarrow> False
      | Some u \<Rightarrow>
          if \<not> active u then False
          else (case role u of None \<Rightarrow> False | Some r \<Rightarrow> role_name r = rn))"

text \<open>\<open>has_permission(user, permission_code)\<close>, branch by branch.\<close>

definition has_permission :: "Staff option \<Rightarrow> string \<Rightarrow> bool" where
  "has_permission user permission_code =
     (case user of
        None \<Rightarrow> False
      | Some u \<Rightarrow>
          if \<not> active u then False
          else if has_role user ''superadmin'' then True
          else if has_role user ''facility_head'' \<and> endswith permission_code ''_read'' then True
          else (case role u of
                  None \<Rightarrow> False
                | Some r \<Rightarrow>
                    if permissions r \<noteq> []
                    then list_ex (\<lambda>p. code p = permission_code) (permissions r)
                    else False))"

text \<open>Example rows: the cashier role of \<open>ROLE_PERMISSIONS\<close> with the two of its codes
  that the catalog holds.\<close>

definition payment_process :: Permission where
  "payment_process = \<lparr>permission_id = 21, code = ''payment_process''\<rparr>"

definition patient_read :: Permission where
  "patient_read = \<lparr>permission_id = 2, code = ''patient_read''\<rparr>"

definition cashier_role :: Role where
  "cashier_role = \<lparr>role_id = 7, role_name = ''cashier'',
     permissions = [payment_process, patient_read]\<rparr>"

text \<open>The permission catalog \<open>PERMISSIONS\<close>: code and description, in the order of the dict.\<close>

definition PERMISSIONS :: "(string \<times> string) list" where
  "PERMISSIONS =
    [(''patient_create'', ''Create new patients''),
     (''patient_read'', ''View patient information''),
     (''patient_update'', ''Update patient information''),
     (''patient_delete'', ''Delete patient records''),
     (''visit_create'', ''Create new visits''),
     (''visit_read'', ''View visit information''),
     (''visit_update'', ''Update visit information''),
     (''visit_close'', ''Close visits''),
     (''clinical_notes_create'', ''Create clinical notes''),
     (''clinical_notes_read'', ''Read clinical notes''),
     (''clinical_notes_update'', ''Update clinical notes''),
     (''orders_create'', ''Create lab/radiology orders''),
     (''orders_read'', ''View orders''),
     (''orders_update'', ''Update orders''),
     (''results_post'', ''Post lab/radiology results''),
     (''prescription_create'', ''Create prescriptions''),
     (''prescription_dispense'', ''Dispense medications''),
     (''inventory_manage'', ''Manage inventory''),
     (''invoice_create'', ''Create invoices''),
     (''invoice_finalize'', ''Finalize invoices''),
     (''payment_process'', ''Process payments''),
     (''claims_manage'', ''Manage insurance claims''),
     (''referral_create'', ''Create referrals''),
     (''referral_manage'', ''Manage referrals''),
     (''staff_manage'', ''Manage staff''),
     (''schedule_manage'', ''Manage schedules''),
     (''ticket_create'', ''Create helpdesk tickets''),
     (''ticket_assign'', ''Assign tickets''),
     (''ticket_resolve'', ''Resolve tickets''),
     (''incident_report'', ''Report quality incidents''),
     (''incident_manage'', ''Manage quality incidents''),
     (''audit_conduct'', ''Conduct audits''),
     (''workorder_create'', ''Create work orders''),
     (''workorder_manage'', ''Manage work orders''),
     (''asset_manage'', ''Manage assets''),
     (''reports_view'', ''View reports''),
     (''settings_manage'', ''Manage system settings''),
     (''user_manage'', ''Manage users and roles'')]"

text \<open>\<open>ROLE_PERMISSIONS['superadmin']\<close> is \<open>[*PERMISSIONS.keys()]\<close>.\<close>

definition ROLE_PERMISSIONS_superadmin :: "string list" where
  "ROLE_PERMISSIONS_superadmin = map fst PERMISSIONS"

text \<open>
  The general check in the words of the specification (4.2 and 4.3, step 3c): the
  decision is membership of the code in the permission set of the actor's role.
\<close>

definition general_check :: "Staff \<Rightarrow> string \<Rightarrow> bool" where
  "general_check u permission_code =
     (case role u of None \<Rightarrow> False | Some r \<Rightarrow> permission_code \<in> code ` set (permissions r))"

text \<open>A role is granted the entire catalog when every catalog code is among its permissions.\<close>

definition granted_entire_catalog :: "Role \<Rightarrow> bool" where
  "granted_entire_catalog r = list_all (\<lambda>c. Role_has_permission r c) ROLE_PERMISSIONS_superadmin"

text \<open>Example rows: a superadmin role holding one permission row per catalog code, an
  active and an inactive actor with that role.\<close>

definition superadmin_role :: Role where
  "superadmin_role = \<lparr>role_id = 17, role_name = ''superadmin'',
     permissions = map (\<lambda>(i, c). \<lparr>permission_id = int i, code = c\<rparr>)
                       (enumerate 1 ROLE_PERMISSIONS_superadmin)\<rparr>"

definition superadmin_user :: Staff where
  "superadmin_user = \<lparr>staff_id = 1, active = True, role = Some superadmin_role\<rparr>"

definition inactive_superadmin :: Staff where
  "inactive_superadmin = \<lparr>staff_id = 2, active = False, role = Some superadmin_role\<rparr>"

section \<open>Facilities and grants (facilities.py), audit entries (common.py)\<close>

record Facility =
  facility_id :: int
  facility_code :: string
  facility_name :: string
  facility_is_active :: bool

text \<open>A \<open>StaffFacility\<close> row; \<open>is_active\<close> is its soft-revocation flag.\<close>

record StaffFacility =
  sf_staff_id :: int
  sf_facility_id :: int
  can_access :: bool
  can_manage_staff :: bool
  can_manage_facility :: bool
  can_view_reports :: bool
  can_export_data :: bool
  assigned_by_id :: "int option"
  sf_notes :: "string option"
  is_active :: bool

text \<open>Python scalars as they occur in the arguments of \<open>audit_log\<close> and in the top level of
  a JSON snapshot.\<close>

datatype pyval = PyNone | PyBool bool | PyInt int | PyStr string

text \<open>An \<open>AuditLog\<close> row; a snapshot is a dict, kept as an association list in insertion
  order.\<close>

record AuditLog =
  actor_id :: "int option"
  action :: string
  entity :: pyval
  entity_id :: pyval
  before_json :: "(string \<times> pyval) list option"
  after_json :: "(string \<times> pyval) list option"

text \<open>
  The ambient state of a request: flask-login's \<open>current_user\<close> (\<open>None\<close> for the anonymous
  user, whose \<open>is_authenticated\<close> is false), the flask \<open>session\<close>, the tables in storage
  order, the application log and the flashed messages.
\<close>

record world =
  current_user :: "Staff option"
  session :: "string \<rightharpoonup> int"
  facilities :: "Facility list"
  staff_facilities :: "StaffFacility list"
  audit_logs :: "AuditLog list"
  logger_errors :: "string list"
  flashes :: "(string \<times> string) list"

text \<open>\<open>StaffFacility.has_access(staff_id, facility_id)\<close>: the filtered query's
  \<open>.first() is not None\<close>.\<close>

definition has_access :: "world \<Rightarrow> int \<Rightarrow> int \<Rightarrow> bool" where
  "has_access w sid fid =
     (find (\<lambda>sf. sf_staff_id sf = sid \<and> sf_facility_id sf = fid \<and> can_access sf \<and> is_active sf)
        (staff_facilities w) \<noteq> None)"

text \<open>\<open>Staff.has_facility_access(self, facility_id)\<close>.\<close>

definition has_facility_access :: "world \<Rightarrow> Staff \<Rightarrow> int \<Rightarrow> bool" where
  "has_facility_access w self fid =
     (find (\<lambda>sf. sf_staff_id sf = staff_id self \<and> sf_facility_id sf = fid
                 \<and> can_access sf \<and> is_active sf)
        (staff_facilities w) \<noteq> None)"

text \<open>
  \<open>Staff.get_accessible_facilities(self)\<close>: \<open>Facility.query.join(StaffFacility).filter(...).all()\<close>.
  The join is on the foreign key \<open>staff_facilities.facility_id = facilities.id\<close>; the query
  returns each facility entity once. It has no \<open>order_by\<close>, so the rows come in the order
  the tables are scanned.
\<close>

definition get_accessible_facilities :: "world \<Rightarrow> Staff \<Rightarrow> Facility list" where
  "get_accessible_facilities w self =
     remdups (map fst
       [(f, sf). f \<leftarrow> facilities w, sf \<leftarrow> staff_facilities w,
          sf_facility_id sf = facility_id f,
          sf_staff_id sf = staff_id self \<and> can_access sf \<and> is_active sf
            \<and> facility_is_active f])"

section \<open>Session facility selector (session.py)\<close>

text \<open>\<open>set_current_facility(facility_id)\<close>: the returned flag and the state after the call.\<close>

definition set_current_facility :: "int \<Rightarrow> world \<Rightarrow> bool \<times> world" where
  "set_current_facility fid w =
     (case current_user w of
        None \<Rightarrow> (False, w)
      | Some u \<Rightarrow>
          if \<not> has_facility_access w u fid then (False, w)
          else (True, w\<lparr>session := (session w)(''current_facility_id'' \<mapsto> fid)\<rparr>))"

text \<open>
  \<open>get_current_facility()\<close>. \<open>if not facility_id\<close> is true for a missing key and for the
  id 0; \<open>session.pop\<close> removes the key; \<open>Facility.query.get\<close> looks the primary key up.
\<close>

definition get_current_facility :: "world \<Rightarrow> Facility option \<times> world" where
  "get_current_facility w =
     (case current_user w of
        None \<Rightarrow> (None, w)
      | Some u \<Rightarrow>
          (case session w ''current_facility_id'' of
             None \<Rightarrow> (None, w)
           | Some fid \<Rightarrow>
               if fid = 0 then (None, w)
               else if \<not> has_facility_access w u fid
               then (None, w\<lparr>session := (session w)(''current_facility_id'' := None)\<rparr>)
               else (find (\<lambda>f. facility_id f = fid) (facilities w), w)))"

text \<open>\<open>get_user_facilities()\<close>.\<close>

definition get_user_facilities :: "world \<Rightarrow> Facility list" where
  "get_user_facilities w =
     (case current_user w of None \<Rightarrow> [] | Some u \<Rightarrow> get_accessible_facilities w u)"

text \<open>
  Modelled from the spec: the soft revocation of a grant ("soft-deactivate"), for which
  the sources hold no routine. It clears the active flag of the grant rows of the pair
  and touches nothing else.
\<close>

definition revoke_grant :: "int \<Rightarrow> int \<Rightarrow> world \<Rightarrow> world" where
  "revoke_grant sid fid w =
     w\<lparr>staff_facilities :=
         map (\<lambda>sf. if sf_staff_id sf = sid \<and> sf_facility_id sf = fid
                   then sf\<lparr>is_active := False\<rparr> else sf)
           (staff_facilities w)\<rparr>"

text \<open>Example state: a cashier granted two active facilities, stored in the
  order Zeta, Alpha, and one inactive facility.\<close>

definition clerk :: Staff where
  "clerk = \<lparr>staff_id = 5, active = True, role = Some cashier_role\<rparr>"

definition grant_row :: "int \<Rightarrow> int \<Rightarrow> StaffFacility" where
  "grant_row sid fid = \<lparr>sf_staff_id = sid, sf_facility_id = fid, can_access = True,
     can_manage_staff = False, can_manage_facility = False, can_view_reports = True,
     can_export_data = False, assigned_by_id = Some 1, sf_notes = None, is_active = True\<rparr>"

definition zeta :: Facility where
  "zeta = \<lparr>facility_id = 1, facility_code = ''PHC001'', facility_name = ''Zeta Clinic'',
     facility_is_active = True\<rparr>"

definition alpha :: Facility where
  "alpha = \<lparr>facility_id = 2, facility_code = ''PHC002'', facility_name = ''Alpha Clinic'',
     facility_is_active = True\<rparr>"

definition closed_site :: Facility where
  "closed_site = \<lparr>facility_id = 3, facility_code = ''PHC003'', facility_name = ''Closed Site'',
     facility_is_active = False\<rparr>"

definition clinic_world :: world where
  "clinic_world = \<lparr>current_user = Some clerk, session = Map.empty,
     facilities = [zeta, alpha, closed_site],
     staff_facilities = [grant_row 5 1, grant_row 5 2, grant_row 5 3],
     audit_logs = [], logger_errors = [], flashes = []\<rparr>"

section \<open>Python strings and scalars\<close>

text \<open>\<open>str(n)\<close> for an integer: decimal digits, a minus sign for a negative number.\<close>

definition digit_char :: "nat \<Rightarrow> char" where
  "digit_char d = ''0123456789'' ! (d mod 10)"

fun str_nat :: "nat \<Rightarrow> string" where
  "str_nat n = (if n < 10 then [digit_char n] else str_nat (n div 10) @ [digit_char (n mod 10)])"

declare str_nat.simps [simp del]

definition str_int :: "int \<Rightarrow> string" where
  "str_int i = (if i < 0 then CHR ''-'' # str_nat (nat (- i)) else str_nat (nat i))"

text \<open>The text an f-string puts for a scalar.\<close>

fun py_str :: "pyval \<Rightarrow> string" where
  "py_str PyNone = ''None''"
| "py_str (PyBool b) = (if b then ''True'' else ''False'')"
| "py_str (PyInt i) = str_int i"
| "py_str (PyStr s) = s"

text \<open>Python's \<open>==\<close> on scalars: \<open>bool\<close> is a subtype of \<open>int\<close>, so \<open>True == 1\<close>.\<close>

fun py_num :: "pyval \<Rightarrow> int option" where
  "py_num (PyBool b) = Some (if b then 1 else 0)"
| "py_num (PyInt i) = Some i"
| "py_num v = None"

definition py_eq :: "pyval \<Rightarrow> pyval \<Rightarrow> bool" where
  "py_eq x y =
     (case (py_num x, py_num y) of
        (Some a, Some b) \<Rightarrow> a = b
      | (None, None) \<Rightarrow> x = y
      | _ \<Rightarrow> False)"

text \<open>\<open>sep.join(xs)\<close>.\<close>

fun join :: "string \<Rightarrow> string list \<Rightarrow> string" where
  "join sep [] = []"
| "join sep [x] = x"
| "join sep (x # y # ys) = x @ sep @ join sep (y # ys)"

text \<open>\<open>str.title()\<close> on ASCII text: a letter that follows a letter is lowered, any other
  letter is raised.\<close>

definition is_lower :: "char \<Rightarrow> bool" where
  "is_lower c = (CHR ''a'' \<le> c \<and> c \<le> CHR ''z'')"

definition is_upper :: "char \<Rightarrow> bool" where
  "is_upper c = (CHR ''A'' \<le> c \<and> c \<le> CHR ''Z'')"

definition to_upper :: "char \<Rightarrow> char" where
  "to_upper c = (if is_lower c then char_of (of_char c - (32::nat)) else c)"

definition to_lower :: "char \<Rightarrow> char" where
  "to_lower c = (if is_upper c then char_of (of_char c + (32::nat)) else c)"

fun title_from :: "bool \<Rightarrow> string \<Rightarrow> string" where
  "title_from previous_is_cased [] = []"
| "title_from previous_is_cased (c # cs) =
     (if is_lower c \<or> is_upper c
      then (if previous_is_cased then to_lower c else to_upper c) # title_from True cs
      else c # title_from False cs)"

definition title :: "string \<Rightarrow> string" where
  "title s = title_from False s"

section \<open>The audit entry's change summary (common.py)\<close>

definition is_create_action :: "AuditLog \<Rightarrow> bool" where
  "is_create_action self = (action self = ''create'')"

definition is_update_action :: "AuditLog \<Rightarrow> bool" where
  "is_update_action self = (action self = ''update'')"

definition is_delete_action :: "AuditLog \<Rightarrow> bool" where
  "is_delete_action self = (action self = ''delete'')"

definition has_changes :: "AuditLog \<Rightarrow> bool" where
  "has_changes self = (before_json self \<noteq> None \<or> after_json self \<noteq> None)"

text \<open>
  The loop of \<open>change_summary\<close> over the keys of \<open>after_json\<close>: a key is appended when it is
  in \<open>before_json\<close> and the two values are unequal.
\<close>

fun changed_fields ::
  "(string \<times> pyval) list \<Rightarrow> (string \<times> pyval) list \<Rightarrow> string list \<Rightarrow> string list" where
  "changed_fields bef aft [] = []"
| "changed_fields bef aft (key # keys) =
     (case (map_of bef key, map_of aft key) of
        (Some old, Some new) \<Rightarrow>
          if \<not> py_eq old new then key # changed_fields bef aft keys
          else changed_fields bef aft keys
      | _ \<Rightarrow> changed_fields bef aft keys)"

text \<open>
  \<open>AuditLog.change_summary\<close>. A snapshot is true in a condition when it is neither \<open>None\<close>
  nor the empty dict.
\<close>

definition change_summary :: "AuditLog \<Rightarrow> string option" where
  "change_summary self =
     (if \<not> has_changes self then None
      else if is_create_action self
      then Some (''Created '' @ py_str (entity self) @ '' with ID '' @ py_str (entity_id self))
      else if is_delete_action self
      then Some (''Deleted '' @ py_str (entity self) @ '' with ID '' @ py_str (entity_id self))
      else (case (is_update_action self, before_json self, after_json self) of
              (True, Some (b # bef), Some (a # aft)) \<Rightarrow>
                Some (''Updated '' @ py_str (entity self) @ '' '' @ py_str (entity_id self) @ '': ''
                      @ join '', '' (changed_fields (b # bef) (a # aft) (map fst (a # aft))))
            | _ \<Rightarrow>
                Some (title (action self) @ '' '' @ py_str (entity self) @ '' ''
                      @ py_str (entity_id self))))"

text \<open>
  In the words of the specification: the value of a top-level key differs between the
  two snapshots when the key has unequal values in them or is in only one of them.
\<close>

definition value_differs ::
  "(string \<times> pyval) list \<Rightarrow> (string \<times> pyval) list \<Rightarrow> string \<Rightarrow> bool" where
  "value_differs bef aft key =
     (case (map_of bef key, map_of aft key) of
        (None, None) \<Rightarrow> False
      | (Some old, Some new) \<Rightarrow> \<not> py_eq old new
      | _ \<Rightarrow> True)"

section \<open>Decorators and the audit recorder (security.py)\<close>

text \<open>
  A decorated view either aborts with an HTTP status (\<open>Inl\<close>) or returns what the view
  returns; either way it leaves a state behind.
\<close>

definition require_permission ::
  "string \<Rightarrow> (world \<Rightarrow> (nat + 'r) \<times> world) \<Rightarrow> world \<Rightarrow> (nat + 'r) \<times> world" where
  "require_permission permission_code f w =
     (if current_user w = None then (Inl 401, w)
      else if \<not> has_permission (current_user w) permission_code then (Inl 403, w)
      else f w)"

definition require_role ::
  "string \<Rightarrow> (world \<Rightarrow> (nat + 'r) \<times> world) \<Rightarrow> world \<Rightarrow> (nat + 'r) \<times> world" where
  "require_role rn f w =
     (if current_user w = None then (Inl 401, w)
      else if \<not> has_role (current_user w) rn then (Inl 403, w)
      else f w)"

text \<open>
  \<open>db.session.add(audit_entry); db.session.commit()\<close>: the row is stored, or an exception
  is raised (\<open>Inl\<close>, with its text). The first parameter says which.
\<close>

definition add_and_commit :: "string option \<Rightarrow> AuditLog \<Rightarrow> world \<Rightarrow> string + world" where
  "add_and_commit failure audit_entry w =
     (case failure of
        Some e \<Rightarrow> Inl e
      | None \<Rightarrow> Inr (w\<lparr>audit_logs := audit_logs w @ [audit_entry]\<rparr>))"

text \<open>
  \<open>audit_log(action, entity, entity_id, before_data, after_data)\<close>. The result is \<open>Inl\<close>
  when an exception leaves the function and \<open>Inr\<close> with the state when it returns. The
  \<open>except Exception\<close> clause logs the error and rolls the session back, which drops the
  entry that was not stored.
\<close>

definition audit_log ::
  "string option \<Rightarrow> string \<Rightarrow> pyval \<Rightarrow> pyval \<Rightarrow> (string \<times> pyval) list option
     \<Rightarrow> (string \<times> pyval) list option \<Rightarrow> world \<Rightarrow> string + world" where
  "audit_log failure act ent ent_id before_data after_data w =
     (case current_user w of
        None \<Rightarrow> Inr w
      | Some u \<Rightarrow>
          (case add_and_commit failure
                  \<lparr>actor_id = Some (staff_id u), action = act, entity = ent, entity_id = ent_id,
                   before_json = before_data, after_json = after_data\<rparr> w of
             Inr w' \<Rightarrow> Inr w'
           | Inl e \<Rightarrow>
               Inr (w\<lparr>logger_errors := logger_errors w @ [''Failed to log audit trail: '' @ e]\<rparr>)))"

section \<open>Assigning staff to a facility (facility.py)\<close>

datatype http_method = GET | POST

text \<open>A view's answer: a redirect to an endpoint or a rendered template.\<close>

datatype response = Redirect string | Render string

text \<open>
  The submitted form. \<open>form_staff_id\<close> is \<open>int(data.get('staff_id'))\<close>, \<open>None\<close> when that
  conversion raises; the other fields are the raw values of \<open>data.get\<close>.
\<close>

record assign_form =
  form_staff_id :: "int option"
  form_can_access :: "string option"
  form_can_manage_staff :: "string option"
  form_can_manage_facility :: "string option"
  form_can_view_reports :: "string option"
  form_can_export_data :: "string option"
  form_notes :: "string option"

text \<open>
  flask-login's \<open>login_required\<close> with the login view and message that extensions.py
  configures: an anonymous user is sent to the login page.
\<close>

definition login_required ::
  "(world \<Rightarrow> (nat + response) \<times> world) \<Rightarrow> world \<Rightarrow> (nat + response) \<times> world" where
  "login_required f w =
     (if current_user w = None
      then (Inr (Redirect ''auth.login''),
            w\<lparr>flashes := flashes w @ [(''Please log in to access this page.'', ''info'')]\<rparr>)
      else f w)"

text \<open>
  The body of \<open>assign_staff(facility_id)\<close>. An exception that no handler catches is the
  status 500. The new row takes the column default \<open>is_active=True\<close>. The existence check
  is \<open>filter_by(staff_id, facility_id).first()\<close>, whatever the row's flags.
\<close>

definition assign_staff_view ::
  "string option \<Rightarrow> http_method \<Rightarrow> assign_form \<Rightarrow> int \<Rightarrow> world \<Rightarrow> (nat + response) \<times> world" where
  "assign_staff_view failure request_method data fid w =
     (case find (\<lambda>f. facility_id f = fid) (facilities w) of
        None \<Rightarrow> (Inl 404, w)
      | Some facility \<Rightarrow>
          (case request_method of
             GET \<Rightarrow> (Inr (Render ''facility/assign_staff.html''), w)
           | POST \<Rightarrow>
               (case form_staff_id data of
                  None \<Rightarrow> (Inl 500, w)
                | Some sid \<Rightarrow>
                    (case find (\<lambda>sf. sf_staff_id sf = sid \<and> sf_facility_id sf = fid)
                            (staff_facilities w) of
                       Some existing \<Rightarrow>
                         (Inr (Redirect ''facility.staff''),
                          w\<lparr>flashes := flashes w @
                              [(''Staff member already assigned to this facility'', ''warning'')]\<rparr>)
                     | None \<Rightarrow>
                         (case current_user w of
                            None \<Rightarrow> (Inl 500, w)
                          | Some u \<Rightarrow>
                              let staff_facility =
                                    \<lparr>sf_staff_id = sid, sf_facility_id = fid,
                                     can_access = (form_can_access data = Some ''on''),
                                     can_manage_staff = (form_can_manage_staff data = Some ''on''),
                                     can_manage_facility = (form_can_manage_facility data = Some ''on''),
                                     can_view_reports = (form_can_view_reports data = Some ''on''),
                                     can_export_data = (form_can_export_data data = Some ''on''),
                                     assigned_by_id = Some (staff_id u),
                                     sf_notes = form_notes data, is_active = True\<rparr>;
                                  w1 = w\<lparr>staff_facilities := staff_facilities w @ [staff_facility]\<rparr>
                              in (case audit_log failure ''facility.staff_assigned''
                                         (PyInt (facility_id facility))
                                         (PyStr (''Assigned staff '' @ str_int sid @ '' to facility ''
                                                 @ facility_code facility))
                                         None None w1 of
                                    Inl e \<Rightarrow> (Inl 500, w1)
                                  | Inr w2 \<Rightarrow>
                                      (Inr (Redirect ''facility.staff''),
                                       w2\<lparr>flashes := flashes w2 @
                                           [(''Staff assigned successfully'', ''success'')]\<rparr>)))))))"

text \<open>\<open>assign_staff\<close> under its decorators \<open>@login_required\<close> and
  \<open>@require_role('superadmin')\<close>.\<close>

definition assign_staff ::
  "string option \<Rightarrow> http_method \<Rightarrow> assign_form \<Rightarrow> int \<Rightarrow> world \<Rightarrow> (nat + response) \<times> world" where
  "assign_staff failure request_method data fid =
     login_required (require_role ''superadmin'' (assign_staff_view failure request_method data fid))"

text \<open>Example state: the superadmin at work; staff 9 holds a grant to facility 1. The
  form asks for a grant with access for the given staff member.\<close>

definition admin_world :: world where
  "admin_world = \<lparr>current_user = Some superadmin_user, session = Map.empty,
     facilities = [zeta, alpha, closed_site],
     staff_facilities = [grant_row 9 1],
     audit_logs = [], logger_errors = [], flashes = []\<rparr>"

definition access_form :: "int \<Rightarrow> assign_form" where
  "access_form sid = \<lparr>form_staff_id = Some sid, form_can_access = Some ''on'',
     form_can_manage_staff = None, form_can_manage_facility = None,
     form_can_view_reports = Some ''on'', form_can_export_data = None, form_notes = None\<rparr>"

text \<open>Example entries: an update of patient 7 that changes the phone number, and one that
  adds an e-mail address and changes nothing else.\<close>

definition phone_update :: AuditLog where
  "phone_update = \<lparr>actor_id = Some 5, action = ''update'', entity = PyStr ''Patient'',
     entity_id = PyInt 7,
     before_json = Some [(''first_name'', PyStr ''Ada''), (''phone'', PyStr ''555-0001'')],
     after_json = Some [(''first_name'', PyStr ''Ada''), (''phone'', PyStr ''555-0002'')]\<rparr>"

definition email_added :: AuditLog where
  "email_added = \<lparr>actor_id = Some 5, action = ''update'', entity = PyStr ''Patient'',
     entity_id = PyInt 7,
     before_json = Some [(''phone'', PyStr ''555-0001'')],
     after_json = Some [(''phone'', PyStr ''555-0001''), (''email'', PyStr ''ada@example.org'')]\<rparr>"

section \<open>Theorems\<close>

subsection \<open>Helper facts about the permission list\<close>

lemma list_ex_code_iff:
  "list_ex (\<lambda>p. code p = c) ps \<longleftrightarrow> c \<in> code ` set ps"
  by (auto simp: list_ex_iff)

lemma remove1_unique_code:
  assumes "distinct ps" and "inj_on code (set ps)" and "p \<in> set ps"
  shows "code p \<notin> code ` set (remove1 p ps)"
proof
  assume "code p \<in> code ` set (remove1 p ps)"
  then obtain q where q: "q \<in> set (remove1 p ps)" and cq: "code q = code p"
    by auto
  from q assms(1) have "q \<in> set ps" and "q \<noteq> p"
    by auto
  with assms(2,3) cq show False
    by (auto dest: inj_onD)
qed

text \<open>
  C8. Granting a permission and then asking whether the role has its code answers yes;
  revoking it and then asking answers no; granting twice, or revoking twice, leaves the
  role as granting or revoking once does. The role's relationship list is duplicate-free
  and permission codes are unique, as the schema enforces (composite primary key of
  \<open>role_permissions\<close>, \<open>unique=True\<close> on \<open>Permission.code\<close>).
\<close>

theorem grant_revoke_permission:
  assumes "distinct (permissions r)"
    and "inj_on code (insert p (set (permissions r)))"
  shows "Role_has_permission (add_permission r p) (code p)
       \<and> \<not> Role_has_permission (remove_permission r p) (code p)
       \<and> add_permission (add_permission r p) p = add_permission r p
       \<and> remove_permission (remove_permission r p) p = remove_permission r p"
proof -
  have granted: "Role_has_permission (add_permission r p) (code p)"
    by (auto simp: Role_has_permission_def add_permission_def list_ex_iff)
  have revoked: "\<not> Role_has_permission (remove_permission r p) (code p)"
  proof (cases "p \<in> set (permissions r)")
    case True
    from assms(2) have "inj_on code (set (permissions r))"
      by (rule inj_on_subset) auto
    with assms(1) True have "code p \<notin> code ` set (remove1 p (permissions r))"
      by (intro remove1_unique_code)
    with True show ?thesis
      by (simp add: Role_has_permission_def remove_permission_def list_ex_code_iff)
  next
    case False
    have "code p \<notin> code ` set (permissions r)"
    proof
      assume "code p \<in> code ` set (permissions r)"
      then obtain q where q: "q \<in> set (permissions r)" and cq: "code q = code p"
        by auto
      from q have "q \<in> insert p (set (permissions r))" and "p \<in> insert p (set (permissions r))"
        by simp_all
      with cq have "q = p"
        by (rule inj_onD [OF assms(2)])
      with q False show False
        by simp
    qed
    with False show ?thesis
      by (simp add: Role_has_permission_def remove_permission_def list_ex_code_iff)
  qed
  have grant_twice: "add_permission (add_permission r p) p = add_permission r p"
    by (simp add: add_permission_def)
  have revoke_twice: "remove_permission (remove_permission r p) p = remove_permission r p"
    using assms(1) by (simp add: remove_permission_def)
  from granted revoked grant_twice revoke_twice show ?thesis
    by blast
qed

theorem grant_revoke_permission_witness:
  "distinct (permissions cashier_role)
   \<and> inj_on code (insert payment_process (set (permissions cashier_role)))
   \<and> Role_has_permission (add_permission cashier_role payment_process) (code payment_process)
   \<and> \<not> Role_has_permission (remove_permission cashier_role payment_process) (code payment_process)
   \<and> add_permission (add_permission cashier_role payment_process) payment_process
       = add_permission cashier_role payment_process
   \<and> remove_permission (remove_permission cashier_role payment_process) payment_process
       = remove_permission cashier_role payment_process"
proof -
  have d: "distinct (permissions cashier_role)"
    by (simp add: cashier_role_def payment_process_def patient_read_def)
  have i: "inj_on code (insert payment_process (set (permissions cashier_role)))"
    by (simp add: cashier_role_def payment_process_def patient_read_def)
  from grant_revoke_permission [OF d i] d i show ?thesis
    by blast
qed

text \<open>
  C2. An actor whose active flag is false is denied every requirement: for every
  permission code and every role name, \<open>has_permission\<close> and \<open>has_role\<close> are false,
  whatever role the actor holds, and a view guarded by \<open>require_permission\<close> or by
  \<open>require_role\<close> is aborted with 403 before it runs.
\<close>

theorem inactive_actor_denied:
  assumes "\<not> active u"
  shows "\<not> has_permission (Some u) permission_code \<and> \<not> has_role (Some u) rn
       \<and> require_permission permission_code f (w\<lparr>current_user := Some u\<rparr>)
           = (Inl 403, w\<lparr>current_user := Some u\<rparr>)
       \<and> require_role rn g (w\<lparr>current_user := Some u\<rparr>)
           = (Inl 403, w\<lparr>current_user := Some u\<rparr>)"
  using assms
  by (simp add: has_permission_def has_role_def require_permission_def require_role_def)

theorem inactive_actor_denied_witness:
  "\<not> active inactive_superadmin
   \<and> role inactive_superadmin = Some superadmin_role
   \<and> \<not> has_permission (Some inactive_superadmin) ''patient_read''
   \<and> \<not> has_role (Some inactive_superadmin) ''superadmin''
   \<and> require_permission ''patient_read'' (assign_staff_view None POST (access_form 8) 1)
         (admin_world\<lparr>current_user := Some inactive_superadmin\<rparr>)
       = (Inl 403, admin_world\<lparr>current_user := Some inactive_superadmin\<rparr>)"
proof -
  have h: "\<not> active inactive_superadmin" and r: "role inactive_superadmin = Some superadmin_role"
    by (simp_all add: inactive_superadmin_def)
  from inactive_actor_denied [OF h, of "''patient_read''" "''superadmin''"
      "assign_staff_view None POST (access_form 8) 1" admin_world] h r
  show ?thesis
    by blast
qed

subsection \<open>The superadmin short-circuit\<close>

lemma superadmin_role_catalog: "granted_entire_catalog superadmin_role"
  by (simp add: granted_entire_catalog_def Role_has_permission_def superadmin_role_def
      ROLE_PERMISSIONS_superadmin_def PERMISSIONS_def)

text \<open>
  C7, as stated, fails: for an active actor whose role is named superadmin and holds the
  entire catalog, the short-circuit allows the code \<open>facility.view\<close> (the requirement of
  the facility routes), which is in no catalog entry, while the general check denies it.
\<close>

theorem superadmin_shortcut_counterexample:
  "active superadmin_user \<and> role superadmin_user = Some superadmin_role
   \<and> role_name superadmin_role = ''superadmin''
   \<and> granted_entire_catalog superadmin_role
   \<and> has_permission (Some superadmin_user) ''facility.view''
   \<and> \<not> general_check superadmin_user ''facility.view''"
proof -
  have "has_permission (Some superadmin_user) ''facility.view''"
    by (simp add: has_permission_def has_role_def superadmin_user_def superadmin_role_def)
  moreover have "\<not> general_check superadmin_user ''facility.view''"
    by (simp add: general_check_def superadmin_user_def superadmin_role_def
        ROLE_PERMISSIONS_superadmin_def PERMISSIONS_def)
  ultimately show ?thesis
    using superadmin_role_catalog by (simp add: superadmin_user_def superadmin_role_def)
qed

text \<open>
  C7, amended: for an active actor whose role is named superadmin and is granted the
  entire catalog, and for every permission code of the catalog, the short-circuit gives
  the decision of the general check.
\<close>

theorem superadmin_shortcut_on_catalog:
  assumes "active u" and "role u = Some r" and "role_name r = ''superadmin''"
    and "granted_entire_catalog r"
    and "permission_code \<in> set ROLE_PERMISSIONS_superadmin"
  shows "has_permission (Some u) permission_code = general_check u permission_code"
proof -
  from assms(1-3) have "has_permission (Some u) permission_code"
    by (simp add: has_permission_def has_role_def)
  moreover from assms(4,5) have "Role_has_permission r permission_code"
    by (simp add: granted_entire_catalog_def list_all_iff)
  then have "general_check u permission_code"
    using assms(2) by (simp add: general_check_def Role_has_permission_def list_ex_code_iff)
  ultimately show ?thesis
    by simp
qed

theorem superadmin_shortcut_on_catalog_witness:
  "active superadmin_user \<and> role superadmin_user = Some superadmin_role
   \<and> role_name superadmin_role = ''superadmin''
   \<and> granted_entire_catalog superadmin_role
   \<and> ''invoice_finalize'' \<in> set ROLE_PERMISSIONS_superadmin
   \<and> has_permission (Some superadmin_user) ''invoice_finalize''
     = general_check superadmin_user ''invoice_finalize''"
proof -
  have a: "active superadmin_user" and b: "role superadmin_user = Some superadmin_role"
    by (simp_all add: superadmin_user_def)
  have c: "role_name superadmin_role = ''superadmin''"
    by (simp add: superadmin_role_def)
  have d: "''invoice_finalize'' \<in> set ROLE_PERMISSIONS_superadmin"
    by (simp add: ROLE_PERMISSIONS_superadmin_def PERMISSIONS_def)
  from superadmin_shortcut_on_catalog [OF a b c superadmin_role_catalog d] a b c d
    superadmin_role_catalog
  show ?thesis
    by blast
qed

subsection \<open>Facility access\<close>

lemma find_not_None_iff: "find P xs \<noteq> None \<longleftrightarrow> (\<exists>x\<in>set xs. P x)"
  by (induction xs) auto

lemma has_facility_access_iff:
  "has_facility_access w u fid \<longleftrightarrow>
     (\<exists>sf\<in>set (staff_facilities w).
        sf_staff_id sf = staff_id u \<and> sf_facility_id sf = fid \<and> can_access sf \<and> is_active sf)"
  unfolding has_facility_access_def by (rule find_not_None_iff)

lemma has_access_eq: "has_access w (staff_id u) fid = has_facility_access w u fid"
  by (simp add: has_access_def has_facility_access_def)

text \<open>
  C1. The claim asks for access only when the facility itself is active. For the clerk
  and the inactive facility 3, to which the clerk holds an active grant with can-access,
  both \<open>has_access\<close> and \<open>has_facility_access\<close> answer true, while the listing of the
  clerk's accessible facilities leaves that facility out.
\<close>

theorem has_access_inactive_facility:
  "find (\<lambda>f. facility_id f = 3) (facilities clinic_world) = Some closed_site
   \<and> \<not> facility_is_active closed_site
   \<and> has_access clinic_world (staff_id clerk) 3
   \<and> has_facility_access clinic_world clerk 3
   \<and> closed_site \<notin> set (get_accessible_facilities clinic_world clerk)"
  by code_simp

subsection \<open>Listing the accessible facilities\<close>

lemma set_get_accessible_facilities:
  "set (get_accessible_facilities w u) =
     {f \<in> set (facilities w). facility_is_active f \<and> has_facility_access w u (facility_id f)}"
  by (fastforce simp: get_accessible_facilities_def has_facility_access_iff image_iff)

text \<open>
  C9, as stated, fails: the clerk's two accessible facilities come back in storage order,
  Zeta Clinic before Alpha Clinic, which is not the order of their names. The facility
  rows and the grant rows are stored in the same order here, so the result is the same
  whichever table the join scans first.
\<close>

theorem accessible_facilities_order_counterexample:
  "get_user_facilities clinic_world = [zeta, alpha]
   \<and> \<not> sorted (map facility_name (get_user_facilities clinic_world))"
proof -
  have r: "get_user_facilities clinic_world = [zeta, alpha]"
    by code_simp
  have "\<not> ''Zeta Clinic'' \<le> ''Alpha Clinic''"
    by (simp add: less_eq_char_def)
  then show ?thesis
    by (simp add: r zeta_def alpha_def)
qed

text \<open>
  C9, amended: for an authenticated actor the listing holds exactly the active facilities
  for which \<open>has_facility_access\<close> holds, each once, in no promised order; for an actor
  with no grant rows it is the empty list.
\<close>

theorem accessible_facilities_exact:
  assumes "current_user w = Some u"
  shows "set (get_user_facilities w) =
           {f \<in> set (facilities w). facility_is_active f \<and> has_facility_access w u (facility_id f)}
       \<and> distinct (get_user_facilities w)
       \<and> ((\<forall>sf\<in>set (staff_facilities w). sf_staff_id sf \<noteq> staff_id u)
            \<longrightarrow> get_user_facilities w = [])"
proof -
  have eq: "get_user_facilities w = get_accessible_facilities w u"
    using assms by (simp add: get_user_facilities_def)
  have s: "set (get_user_facilities w) =
      {f \<in> set (facilities w). facility_is_active f \<and> has_facility_access w u (facility_id f)}"
    by (simp only: eq set_get_accessible_facilities)
  have d: "distinct (get_user_facilities w)"
    by (simp add: eq get_accessible_facilities_def)
  have e: "get_user_facilities w = []"
    if "\<forall>sf\<in>set (staff_facilities w). sf_staff_id sf \<noteq> staff_id u"
  proof -
    from that have "set (get_user_facilities w) = {}"
      unfolding s by (auto simp: has_facility_access_iff)
    then show ?thesis
      by simp
  qed
  from s d e show ?thesis
    by blast
qed

theorem accessible_facilities_exact_witness:
  "current_user (clinic_world\<lparr>staff_facilities := [grant_row 9 1]\<rparr>) = Some clerk
   \<and> get_user_facilities (clinic_world\<lparr>staff_facilities := [grant_row 9 1]\<rparr>) = []
   \<and> distinct (get_user_facilities (clinic_world\<lparr>staff_facilities := [grant_row 9 1]\<rparr>))"
proof -
  have a: "current_user (clinic_world\<lparr>staff_facilities := [grant_row 9 1]\<rparr>) = Some clerk"
    by (simp add: clinic_world_def)
  have b: "\<forall>sf\<in>set (staff_facilities (clinic_world\<lparr>staff_facilities := [grant_row 9 1]\<rparr>)).
         sf_staff_id sf \<noteq> staff_id clerk"
    by (simp add: grant_row_def clerk_def)
  from accessible_facilities_exact [OF a] a b show ?thesis
    by blast
qed

subsection \<open>The session's facility context\<close>

lemma revoked_row_no_access:
  "\<not> (sf_staff_id (if sf_staff_id sf = sid \<and> sf_facility_id sf = fid
                        then sf\<lparr>is_active := False\<rparr> else sf) = sid
        \<and> sf_facility_id (if sf_staff_id sf = sid \<and> sf_facility_id sf = fid
                        then sf\<lparr>is_active := False\<rparr> else sf) = fid
        \<and> can_access (if sf_staff_id sf = sid \<and> sf_facility_id sf = fid
                        then sf\<lparr>is_active := False\<rparr> else sf)
        \<and> is_active (if sf_staff_id sf = sid \<and> sf_facility_id sf = fid
                        then sf\<lparr>is_active := False\<rparr> else sf))"
  by (cases "sf_staff_id sf = sid \<and> sf_facility_id sf = fid") auto

lemma has_facility_access_revoke_grant:
  "\<not> has_facility_access (revoke_grant (staff_id u) fid w) u fid"
proof -
  have "staff_facilities (revoke_grant (staff_id u) fid w) =
      map (\<lambda>sf. if sf_staff_id sf = staff_id u \<and> sf_facility_id sf = fid
                then sf\<lparr>is_active := False\<rparr> else sf) (staff_facilities w)"
    by (simp add: revoke_grant_def)
  then show ?thesis
    unfolding has_facility_access_iff using revoked_row_no_access [of _ "staff_id u" fid]
    by (simp only: set_map ball_simps bex_simps image_iff) blast
qed

text \<open>
  C5. When \<open>set_current_facility\<close> has succeeded for facility F and the actor's grant for
  F is then revoked, the next \<open>get_current_facility\<close> returns None, never the stale
  facility, and removes the stored id from the session. Facility ids are the nonzero
  primary keys the database generates; for the id 0 the function returns None at its
  \<open>if not facility_id\<close> test, before the access check.
\<close>

theorem revoked_grant_clears_context:
  assumes "set_current_facility fid w = (True, w1)"
    and "current_user w = Some u"
  shows "fst (get_current_facility (revoke_grant (staff_id u) fid w1)) = None
       \<and> (fid \<noteq> 0 \<longrightarrow>
            snd (get_current_facility (revoke_grant (staff_id u) fid w1))
              = (revoke_grant (staff_id u) fid w1)
                  \<lparr>session := (session w1)(''current_facility_id'' := None)\<rparr>
            \<and> session (snd (get_current_facility (revoke_grant (staff_id u) fid w1)))
                ''current_facility_id'' = None)"
proof -
  from assms have w1: "w1 = w\<lparr>session := (session w)(''current_facility_id'' \<mapsto> fid)\<rparr>"
    by (auto simp: set_current_facility_def split: if_splits)
  define w2 where "w2 = revoke_grant (staff_id u) fid w1"
  have cu: "current_user w2 = Some u"
    using assms(2) by (simp add: w2_def w1 revoke_grant_def)
  have se: "session w2 = session w1"
    by (simp add: w2_def revoke_grant_def)
  have key: "session w2 ''current_facility_id'' = Some fid"
    by (simp add: se w1)
  have no: "\<not> has_facility_access w2 u fid"
    unfolding w2_def by (rule has_facility_access_revoke_grant)
  have zero: "get_current_facility w2 = (None, w2)" if "fid = 0"
    using that cu key by (simp add: get_current_facility_def)
  have nonzero: "get_current_facility w2
      = (None, w2\<lparr>session := (session w2)(''current_facility_id'' := None)\<rparr>)" if "fid \<noteq> 0"
    using that cu key no by (simp add: get_current_facility_def)
  have "fst (get_current_facility w2) = None"
    using zero nonzero by (cases "fid = 0") simp_all
  moreover have "snd (get_current_facility w2)
      = w2\<lparr>session := (session w1)(''current_facility_id'' := None)\<rparr>
     \<and> session (snd (get_current_facility w2)) ''current_facility_id'' = None" if "fid \<noteq> 0"
    using nonzero [OF that] by (simp add: se)
  ultimately show ?thesis
    unfolding w2_def by blast
qed

theorem revoked_grant_clears_context_witness:
  "set_current_facility 2 clinic_world
     = (True, clinic_world\<lparr>session := [''current_facility_id'' \<mapsto> 2]\<rparr>)
   \<and> current_user clinic_world = Some clerk
   \<and> fst (get_current_facility
        (revoke_grant (staff_id clerk) 2
           (clinic_world\<lparr>session := [''current_facility_id'' \<mapsto> 2]\<rparr>))) = None
   \<and> session (snd (get_current_facility
        (revoke_grant (staff_id clerk) 2
           (clinic_world\<lparr>session := [''current_facility_id'' \<mapsto> 2]\<rparr>))))
       ''current_facility_id'' = None"
proof -
  have a: "set_current_facility 2 clinic_world
     = (True, clinic_world\<lparr>session := [''current_facility_id'' \<mapsto> 2]\<rparr>)"
    by (simp add: set_current_facility_def has_facility_access_def clinic_world_def
        clerk_def grant_row_def)
  have b: "current_user clinic_world = Some clerk"
    by (simp add: clinic_world_def)
  from revoked_grant_clears_context [OF a b] a b show ?thesis
    by simp
qed

subsection \<open>Guarded handlers and the audit recorder\<close>

text \<open>
  C3. For a handler under \<open>require_permission\<close>, whatever its body: when nobody is
  authenticated or the actor lacks the permission, the request is aborted (401, 403)
  with the state as it was, so the body has not run and no audit entry exists for the
  attempt; \<open>audit_log\<close> without an authenticated actor writes nothing; and every entry
  that \<open>audit_log\<close> appends carries the id of the authenticated actor.
\<close>

theorem denied_request_leaves_no_trace:
  "(current_user w = None \<longrightarrow> require_permission permission_code f w = (Inl 401, w))
   \<and> (current_user w \<noteq> None \<and> \<not> has_permission (current_user w) permission_code
        \<longrightarrow> require_permission permission_code f w = (Inl 403, w))
   \<and> (current_user w = None \<longrightarrow> audit_log failure act ent ent_id bef aft w = Inr w)
   \<and> (\<exists>w'. audit_log failure act ent ent_id bef aft w = Inr w'
          \<and> (audit_logs w' = audit_logs w
              \<or> (\<exists>u. current_user w = Some u
                    \<and> audit_logs w' = audit_logs w @
                        [\<lparr>actor_id = Some (staff_id u), action = act, entity = ent,
                          entity_id = ent_id, before_json = bef, after_json = aft\<rparr>])))"
proof -
  have a: "current_user w = None \<longrightarrow> require_permission permission_code f w = (Inl 401, w)"
    by (simp add: require_permission_def)
  have b: "current_user w \<noteq> None \<and> \<not> has_permission (current_user w) permission_code
        \<longrightarrow> require_permission permission_code f w = (Inl 403, w)"
    by (simp add: require_permission_def)
  have c: "current_user w = None \<longrightarrow> audit_log failure act ent ent_id bef aft w = Inr w"
    by (simp add: audit_log_def)
  have d: "\<exists>w'. audit_log failure act ent ent_id bef aft w = Inr w'
          \<and> (audit_logs w' = audit_logs w
              \<or> (\<exists>u. current_user w = Some u
                    \<and> audit_logs w' = audit_logs w @
                        [\<lparr>actor_id = Some (staff_id u), action = act, entity = ent,
                          entity_id = ent_id, before_json = bef, after_json = aft\<rparr>]))"
    by (cases "current_user w"; cases failure) (simp_all add: audit_log_def add_and_commit_def)
  from a b c d show ?thesis
    by blast
qed

theorem denied_request_leaves_no_trace_witness:
  "current_user clinic_world \<noteq> None
   \<and> \<not> has_permission (current_user clinic_world) ''invoice_create''
   \<and> require_permission ''invoice_create'' (assign_staff_view None POST (access_form 8) 1)
        clinic_world = (Inl 403, clinic_world)
   \<and> current_user (clinic_world\<lparr>current_user := None\<rparr>) = None
   \<and> require_permission ''invoice_create'' (assign_staff_view None POST (access_form 8) 1)
        (clinic_world\<lparr>current_user := None\<rparr>) = (Inl 401, clinic_world\<lparr>current_user := None\<rparr>)
   \<and> audit_log None ''patient_update'' (PyStr ''Patient'') (PyInt 7) None None
        (clinic_world\<lparr>current_user := None\<rparr>) = Inr (clinic_world\<lparr>current_user := None\<rparr>)"
proof -
  have a: "current_user clinic_world \<noteq> None"
    by (simp add: clinic_world_def)
  have b: "\<not> has_permission (current_user clinic_world) ''invoice_create''"
    by code_simp
  have c: "current_user (clinic_world\<lparr>current_user := None\<rparr>) = None"
    by simp
  from a b c
    denied_request_leaves_no_trace [of clinic_world "''invoice_create''"
      "assign_staff_view None POST (access_form 8) 1"]
    denied_request_leaves_no_trace [of "clinic_world\<lparr>current_user := None\<rparr>" "''invoice_create''"
      "assign_staff_view None POST (access_form 8) 1" None "''patient_update''"
      "PyStr ''Patient''" "PyInt 7" None None]
  show ?thesis
    by blast
qed

text \<open>
  C4, as stated, fails: the superadmin assigns staff 8 to facility 1 and the audit append
  raises. The request still ends with the success redirect and message, the grant row
  is stored, no audit entry exists, and the failure is only written to the log.
\<close>

theorem audit_failure_counterexample:
  "fst (assign_staff (Some ''connection lost'') POST (access_form 8) 1 admin_world)
     = Inr (Redirect ''facility.staff'')
   \<and> has_access (snd (assign_staff (Some ''connection lost'') POST (access_form 8) 1 admin_world)) 8 1
   \<and> audit_logs (snd (assign_staff (Some ''connection lost'') POST (access_form 8) 1 admin_world)) = []
   \<and> flashes (snd (assign_staff (Some ''connection lost'') POST (access_form 8) 1 admin_world))
     = [(''Staff assigned successfully'', ''success'')]
   \<and> logger_errors (snd (assign_staff (Some ''connection lost'') POST (access_form 8) 1 admin_world))
     = [''Failed to log audit trail: connection lost'']"
  by code_simp

text \<open>
  C4, amended: when the audit append fails, \<open>audit_log\<close> raises nothing: it returns, having
  written the error to the application log, and leaves the tables, the audit log among
  them, as they were after the business mutation.
\<close>

theorem audit_failure_is_swallowed:
  "audit_log (Some e) act ent ent_id bef aft w =
     Inr (case current_user w of
            None \<Rightarrow> w
          | Some u \<Rightarrow> w\<lparr>logger_errors := logger_errors w @ [''Failed to log audit trail: '' @ e]\<rparr>)"
  by (simp add: audit_log_def add_and_commit_def split: option.split)

subsection \<open>Creating grants\<close>

text \<open>
  C6, as stated, fails in its second half: staff 9 holds a grant to facility 1; after
  that grant is soft-revoked, the superadmin's request for a new grant for the same pair
  is answered with the "already assigned" warning, no row is added and staff 9 still has
  no access.
\<close>

theorem regrant_after_revoke_counterexample:
  "has_access admin_world 9 1
   \<and> \<not> has_access (revoke_grant 9 1 admin_world) 9 1
   \<and> fst (assign_staff None POST (access_form 9) 1 (revoke_grant 9 1 admin_world))
       = Inr (Redirect ''facility.staff'')
   \<and> flashes (snd (assign_staff None POST (access_form 9) 1 (revoke_grant 9 1 admin_world)))
       = [(''Staff member already assigned to this facility'', ''warning'')]
   \<and> staff_facilities (snd (assign_staff None POST (access_form 9) 1 (revoke_grant 9 1 admin_world)))
       = staff_facilities (revoke_grant 9 1 admin_world)
   \<and> \<not> has_access (snd (assign_staff None POST (access_form 9) 1 (revoke_grant 9 1 admin_world))) 9 1"
  by code_simp

lemma find_None_iff_no_row: "find P xs = None \<longleftrightarrow> \<not> (\<exists>x\<in>set xs. P x)"
  by (induction xs) auto

text \<open>
  C6, amended: for a superadmin's request on an existing facility, when any grant row
  for the pair exists, active or revoked, the request is answered with the "already
  assigned" warning and the state is otherwise unchanged; when no row for the pair
  exists, exactly one row for the pair is appended, and it is active.
\<close>

theorem assign_staff_one_row_per_pair:
  assumes "has_role (current_user w) ''superadmin''"
    and "find (\<lambda>f. facility_id f = fid) (facilities w) = Some facility"
    and "form_staff_id data = Some sid"
  shows "if \<exists>sf\<in>set (staff_facilities w). sf_staff_id sf = sid \<and> sf_facility_id sf = fid
         then assign_staff failure POST data fid w =
                (Inr (Redirect ''facility.staff''),
                 w\<lparr>flashes := flashes w @
                     [(''Staff member already assigned to this facility'', ''warning'')]\<rparr>)
         else \<exists>row. staff_facilities (snd (assign_staff failure POST data fid w))
                       = staff_facilities w @ [row]
                   \<and> sf_staff_id row = sid \<and> sf_facility_id row = fid \<and> is_active row
                   \<and> can_access row = (form_can_access data = Some ''on'')"
proof -
  from assms(1) obtain u where u: "current_user w = Some u"
    by (cases "current_user w") (simp_all add: has_role_def)
  have unfold: "assign_staff failure POST data fid w = assign_staff_view failure POST data fid w"
    using assms(1) u by (simp add: assign_staff_def login_required_def require_role_def)
  show ?thesis
  proof (cases "\<exists>sf\<in>set (staff_facilities w). sf_staff_id sf = sid \<and> sf_facility_id sf = fid")
    case True
    then obtain existing where
      "find (\<lambda>sf. sf_staff_id sf = sid \<and> sf_facility_id sf = fid) (staff_facilities w) = Some existing"
      using find_None_iff_no_row [of "\<lambda>sf. sf_staff_id sf = sid \<and> sf_facility_id sf = fid"
          "staff_facilities w"]
      by (cases "find (\<lambda>sf. sf_staff_id sf = sid \<and> sf_facility_id sf = fid) (staff_facilities w)")
        auto
    then have "assign_staff_view failure POST data fid w =
        (Inr (Redirect ''facility.staff''),
         w\<lparr>flashes := flashes w @
             [(''Staff member already assigned to this facility'', ''warning'')]\<rparr>)"
      using assms(2,3) by (simp add: assign_staff_view_def)
    with True unfold show ?thesis
      by simp
  next
    case False
    then have none: "find (\<lambda>sf. sf_staff_id sf = sid \<and> sf_facility_id sf = fid)
        (staff_facilities w) = None"
      by (simp add: find_None_iff_no_row)
    define row where "row = \<lparr>sf_staff_id = sid, sf_facility_id = fid,
         can_access = (form_can_access data = Some ''on''),
         can_manage_staff = (form_can_manage_staff data = Some ''on''),
         can_manage_facility = (form_can_manage_facility data = Some ''on''),
         can_view_reports = (form_can_view_reports data = Some ''on''),
         can_export_data = (form_can_export_data data = Some ''on''),
         assigned_by_id = Some (staff_id u),
         sf_notes = form_notes data, is_active = True\<rparr>"
    have "staff_facilities (snd (assign_staff_view failure POST data fid w))
        = staff_facilities w @ [row]"
      using assms(2,3) none u
      by (cases failure)
        (simp_all add: assign_staff_view_def audit_log_def add_and_commit_def Let_def row_def)
    moreover have "sf_staff_id row = sid \<and> sf_facility_id row = fid \<and> is_active row
        \<and> can_access row = (form_can_access data = Some ''on'')"
      by (simp add: row_def)
    ultimately show ?thesis
      using False unfold by auto
  qed
qed

theorem assign_staff_one_row_per_pair_witness:
  "has_role (current_user admin_world) ''superadmin''
   \<and> find (\<lambda>f. facility_id f = 1) (facilities admin_world) = Some zeta
   \<and> form_staff_id (access_form 9) = Some 9
   \<and> assign_staff None POST (access_form 9) 1 admin_world =
        (Inr (Redirect ''facility.staff''),
         admin_world\<lparr>flashes := flashes admin_world @
             [(''Staff member already assigned to this facility'', ''warning'')]\<rparr>)
   \<and> form_staff_id (access_form 8) = Some 8
   \<and> (\<exists>row. staff_facilities (snd (assign_staff None POST (access_form 8) 1 admin_world))
                = staff_facilities admin_world @ [row]
            \<and> sf_staff_id row = 8 \<and> sf_facility_id row = 1 \<and> is_active row)"
proof -
  have a: "has_role (current_user admin_world) ''superadmin''"
    by code_simp
  have b: "find (\<lambda>f. facility_id f = 1) (facilities admin_world) = Some zeta"
    by code_simp
  have c: "form_staff_id (access_form 9) = Some 9" and c': "form_staff_id (access_form 8) = Some 8"
    by (simp_all add: access_form_def)
  have d: "\<exists>sf\<in>set (staff_facilities admin_world). sf_staff_id sf = 9 \<and> sf_facility_id sf = 1"
    by (simp add: admin_world_def grant_row_def)
  have d': "\<not> (\<exists>sf\<in>set (staff_facilities admin_world). sf_staff_id sf = 8 \<and> sf_facility_id sf = 1)"
    by (simp add: admin_world_def grant_row_def)
  have e: "assign_staff None POST (access_form 9) 1 admin_world =
        (Inr (Redirect ''facility.staff''),
         admin_world\<lparr>flashes := flashes admin_world @
             [(''Staff member already assigned to this facility'', ''warning'')]\<rparr>)"
    using assign_staff_one_row_per_pair [OF a b c, of None] d by simp
  have e': "\<exists>row. staff_facilities (snd (assign_staff None POST (access_form 8) 1 admin_world))
                = staff_facilities admin_world @ [row]
            \<and> sf_staff_id row = 8 \<and> sf_facility_id row = 1 \<and> is_active row"
    using assign_staff_one_row_per_pair [OF a b c', of None] d' by auto
  from a b c c' e e' show ?thesis
    by blast
qed

subsection \<open>The change summary\<close>

lemma set_changed_fields:
  "set (changed_fields bef aft keys) =
     {k \<in> set keys. \<exists>old new. map_of bef k = Some old \<and> map_of aft k = Some new \<and> \<not> py_eq old new}"
  by (induction keys) (auto split: option.splits)

lemma set_changed_fields_all_keys:
  "set (changed_fields bef aft (map fst aft)) =
     {k. \<exists>old new. map_of bef k = Some old \<and> map_of aft k = Some new \<and> \<not> py_eq old new}"
proof -
  have "k \<in> set (map fst aft)" if "map_of aft k = Some new" for k new
    using that by (auto dest: map_of_SomeD intro: rev_image_eqI)
  then show ?thesis
    unfolding set_changed_fields by blast
qed

lemma value_differs_same_keys:
  assumes "fst ` set bef = fst ` set aft"
  shows "value_differs bef aft k \<longleftrightarrow>
     (\<exists>old new. map_of bef k = Some old \<and> map_of aft k = Some new \<and> \<not> py_eq old new)"
proof -
  have "map_of bef k = None \<longleftrightarrow> map_of aft k = None"
    using assms by (simp add: map_of_eq_None_iff)
  then show ?thesis
    by (cases "map_of bef k"; cases "map_of aft k") (simp_all add: value_differs_def)
qed

text \<open>
  C10, as stated, fails: an update that adds the key \<open>email\<close> and changes nothing else has
  a key whose value differs between the snapshots, and its summary names no key.
\<close>

theorem change_summary_counterexample:
  "is_update_action email_added
   \<and> before_json email_added = Some [(''phone'', PyStr ''555-0001'')]
   \<and> after_json email_added =
       Some [(''phone'', PyStr ''555-0001''), (''email'', PyStr ''ada@example.org'')]
   \<and> value_differs [(''phone'', PyStr ''555-0001'')]
        [(''phone'', PyStr ''555-0001''), (''email'', PyStr ''ada@example.org'')] ''email''
   \<and> changed_fields [(''phone'', PyStr ''555-0001'')]
        [(''phone'', PyStr ''555-0001''), (''email'', PyStr ''ada@example.org'')]
        [''phone'', ''email''] = []
   \<and> change_summary email_added = Some ''Updated Patient 7: ''"
  by code_simp

text \<open>
  C10, amended: for an entry whose action is \<open>update\<close> and whose two snapshots are
  non-empty, the summary lists exactly the keys that are in both snapshots with unequal
  values; keys that are in only one snapshot are not listed. So when the snapshots have
  the same keys, the summary lists exactly the keys whose value differs.
\<close>

theorem change_summary_changed_keys:
  assumes "is_update_action e"
    and "before_json e = Some bef" and "after_json e = Some aft"
    and "bef \<noteq> []" and "aft \<noteq> []"
  shows "change_summary e =
           Some (''Updated '' @ py_str (entity e) @ '' '' @ py_str (entity_id e) @ '': ''
                 @ join '', '' (changed_fields bef aft (map fst aft)))
       \<and> set (changed_fields bef aft (map fst aft)) =
           {k. \<exists>old new. map_of bef k = Some old \<and> map_of aft k = Some new \<and> \<not> py_eq old new}
       \<and> (fst ` set bef = fst ` set aft \<longrightarrow>
            set (changed_fields bef aft (map fst aft)) = {k. value_differs bef aft k})"
proof -
  from assms(4) obtain b bs where bef: "bef = b # bs"
    by (cases bef) auto
  from assms(5) obtain a as where aft: "aft = a # as"
    by (cases aft) auto
  have act: "action e = ''update''"
    using assms(1) by (simp add: is_update_action_def)
  have summary: "change_summary e =
           Some (''Updated '' @ py_str (entity e) @ '' '' @ py_str (entity_id e) @ '': ''
                 @ join '', '' (changed_fields bef aft (map fst aft)))"
    using assms(2,3) act
    by (simp add: change_summary_def has_changes_def is_create_action_def
        is_delete_action_def is_update_action_def bef aft)
  have same: "set (changed_fields bef aft (map fst aft)) = {k. value_differs bef aft k}"
    if "fst ` set bef = fst ` set aft"
    using value_differs_same_keys [OF that] by (simp only: set_changed_fields_all_keys)
  from summary set_changed_fields_all_keys [of bef aft] same show ?thesis
    by blast
qed

theorem change_summary_changed_keys_witness:
  "is_update_action phone_update
   \<and> before_json phone_update =
       Some [(''first_name'', PyStr ''Ada''), (''phone'', PyStr ''555-0001'')]
   \<and> after_json phone_update =
       Some [(''first_name'', PyStr ''Ada''), (''phone'', PyStr ''555-0002'')]
   \<and> change_summary phone_update = Some ''Updated Patient 7: phone''"
proof -
  have a: "is_update_action phone_update"
    by code_simp
  have b: "before_json phone_update =
       Some [(''first_name'', PyStr ''Ada''), (''phone'', PyStr ''555-0001'')]"
    and c: "after_json phone_update =
       Some [(''first_name'', PyStr ''Ada''), (''phone'', PyStr ''555-0002'')]"
    by (simp_all add: phone_update_def)
  have d: "''Updated '' @ py_str (entity phone_update) @ '' '' @ py_str (entity_id phone_update)
      @ '': '' @ join '', ''
          (changed_fields [(''first_name'', PyStr ''Ada''), (''phone'', PyStr ''555-0001'')]
             [(''first_name'', PyStr ''Ada''), (''phone'', PyStr ''555-0002'')]
             (map fst [(''first_name'', PyStr ''Ada''), (''phone'', PyStr ''555-0002'')]))
      = ''Updated Patient 7: phone''"
    by code_simp
  from change_summary_changed_keys [OF a b c] a b c d show ?thesis
    by simp
qed

end
